theory Spec2Isabelle
  imports Main
begin

section \<open>The floppy module of vmware\_guest\_floppy.py\<close>

text \<open>
  The module reads the floppy drive of a virtual machine, compares it with the task's
  parameters and sends a reconfiguration when they differ. The objects of the SDK are
  modelled by the attributes the module reads and writes; the remote endpoint
  (\<open>ReconfigVM_Task\<close>, the task it returns, the fact gathering) is a parameter.
\<close>

subsection \<open>Data model\<close>

datatype power_state = poweredOff | poweredOn | suspended

text \<open>
  The exceptions of Python and of the SDK that a run can raise. \<open>Fault\<close> is a fault of
  the endpoint that the module does not catch.
\<close>

datatype exn = TypeError | AttributeError | AssertionError | Fault string

text \<open>
  The backing of a floppy drive. \<open>ImageBackingInfo\<close> carries \<open>fileName\<close>, a required
  field. \<open>DeviceBackingInfo\<close> is the third backing class a drive read from the machine can
  have; \<open>NoBacking\<close> is the attribute left unset.
\<close>

datatype backing =
    RemoteDeviceBackingInfo
  | ImageBackingInfo string
  | DeviceBackingInfo
  | NoBacking

text \<open>
  The call \<open>ImageBackingInfo(fileName=flp_path)\<close>: the SDK refuses \<open>None\<close> for the
  required field with a \<open>TypeError\<close>; any string, the empty one too, is taken.
\<close>

definition ImageBackingInfo_init :: "string option \<Rightarrow> exn + backing" where
  "ImageBackingInfo_init fileName =
     (case fileName of None \<Rightarrow> Inl TypeError | Some n \<Rightarrow> Inr (ImageBackingInfo n))"

record connect_info =
  allowGuestControl :: bool
  startConnected :: bool
  connected :: bool

text \<open>\<open>vim.vm.device.VirtualDevice.ConnectInfo()\<close>: every flag unset, which reads as false.\<close>

definition ConnectInfo :: connect_info where
  "ConnectInfo = \<lparr>allowGuestControl = False, startConnected = False, connected = False\<rparr>"

record floppy =
  key :: int
  controllerKey :: int
  backing :: backing
  connectable :: connect_info

text \<open>
  The devices of a machine: the SIO controller (key, bus number), the floppy drive, and
  any other device (key).
\<close>

datatype device =
    VirtualSIOController int int
  | VirtualFloppy floppy
  | OtherDevice int

fun device_key :: "device \<Rightarrow> int" where
  "device_key (VirtualSIOController k b) = k"
| "device_key (VirtualFloppy f) = key f"
| "device_key (OtherDevice k) = k"

datatype operation = add | edit | remove

record device_spec =
  operation :: operation
  device :: device

record vm =
  template :: bool
  powerState :: power_state
  devices :: "device list"

text \<open>
  \<open>module.params\<close>: \<open>None\<close> is a parameter that was not given. \<open>main\<close> declares the
  defaults.
\<close>

record params =
  param_state :: string
  param_name :: "string option"
  param_uuid :: "string option"
  param_type :: "string option"
  image_file :: "string option"
  start_connected :: bool

text \<open>The attributes of \<open>PyVmomiHelper\<close> that the floppy operations write.\<close>

record helper =
  change_detected :: bool
  deviceChange :: "device_spec list"

text \<open>Python's truth value of an optional string: \<open>None\<close> and the empty string are false.\<close>

fun truthy :: "string option \<Rightarrow> bool" where
  "truthy None = False"
| "truthy (Some s) = (s \<noteq> [])"

subsection \<open>PyVmomiDeviceHelper\<close>

text \<open>
  \<open>create_sio_controller\<close>: an add operation for a new SIO controller on bus 0. Its key
  is not set, which reads as 0.
\<close>

definition create_sio_controller :: device_spec where
  "create_sio_controller = \<lparr>operation = add, device = VirtualSIOController 0 0\<rparr>"

text \<open>
  \<open>create_floppy\<close>: \<open>sio_ctl\<close> is either the specification of a new controller
  (\<open>Inl\<close>) or the controller device of the machine (\<open>Inr\<close>). The specification is
  built with its backing unset; the backing is assigned last, and for type \<open>flp\<close> the
  construction of the backing can raise.
\<close>

definition create_floppy :: "device_spec + device \<Rightarrow> string option \<Rightarrow> string option \<Rightarrow> exn + device_spec" where
  "create_floppy sio_ctl floppy_type flp_path =
     (let sio = (case sio_ctl of Inl spec \<Rightarrow> device spec | Inr d \<Rightarrow> d);
          floppy_spec = (\<lambda>b.
            \<lparr>operation = add,
             device = VirtualFloppy
               \<lparr>key = - 1,
                controllerKey = device_key sio,
                backing = b,
                connectable = ConnectInfo
                  \<lparr>allowGuestControl := True,
                   startConnected := (floppy_type \<noteq> Some ''none'')\<rparr>\<rparr>\<rparr>)
      in if floppy_type \<in> {Some ''none'', Some ''client''} then
           Inr (floppy_spec RemoteDeviceBackingInfo)
         else if floppy_type = Some ''flp'' then
           (case ImageBackingInfo_init flp_path of
              Inl x \<Rightarrow> Inl x
            | Inr b \<Rightarrow> Inr (floppy_spec b))
         else Inr (floppy_spec NoBacking))"

text \<open>
  \<open>is_equal_floppy\<close>: the three branches of the source; for any other type the function
  falls off its end and returns Python's \<open>None\<close>.
\<close>

definition is_equal_floppy :: "vm \<Rightarrow> floppy \<Rightarrow> string option \<Rightarrow> string option \<Rightarrow> bool option" where
  "is_equal_floppy vm_obj floppy_device floppy_type flp_path =
     (if floppy_type = Some ''none'' then
        Some (backing floppy_device = RemoteDeviceBackingInfo \<and>
              allowGuestControl (connectable floppy_device) \<and>
              \<not> startConnected (connectable floppy_device) \<and>
              (powerState vm_obj \<noteq> poweredOn \<or> \<not> connected (connectable floppy_device)))
      else if floppy_type = Some ''client'' then
        Some (backing floppy_device = RemoteDeviceBackingInfo \<and>
              allowGuestControl (connectable floppy_device) \<and>
              startConnected (connectable floppy_device) \<and>
              (powerState vm_obj \<noteq> poweredOn \<or> connected (connectable floppy_device)))
      else if floppy_type = Some ''flp'' then
        Some ((case backing floppy_device of
                 ImageBackingInfo fileName \<Rightarrow> Some fileName = flp_path
               | _ \<Rightarrow> False) \<and>
              allowGuestControl (connectable floppy_device) \<and>
              startConnected (connectable floppy_device) \<and>
              (powerState vm_obj \<noteq> poweredOn \<or> connected (connectable floppy_device)))
      else None)"

subsection \<open>PyVmomiHelper\<close>

fun first_sio :: "device list \<Rightarrow> device option" where
  "first_sio [] = None"
| "first_sio (VirtualSIOController k b # ds) = Some (VirtualSIOController k b)"
| "first_sio (d # ds) = first_sio ds"

fun first_floppy :: "device list \<Rightarrow> floppy option" where
  "first_floppy [] = None"
| "first_floppy (VirtualFloppy f # ds) = Some f"
| "first_floppy (d # ds) = first_floppy ds"

definition get_vm_sio_device :: "vm option \<Rightarrow> device option" where
  "get_vm_sio_device v = (case v of None \<Rightarrow> None | Some m \<Rightarrow> first_sio (devices m))"

definition get_vm_floppy_device :: "vm option \<Rightarrow> floppy option" where
  "get_vm_floppy_device v = (case v of None \<Rightarrow> None | Some m \<Rightarrow> first_floppy (devices m))"

text \<open>\<open>vm_obj and vm_obj.config.template\<close>\<close>

definition is_template :: "vm option \<Rightarrow> bool" where
  "is_template v = (case v of None \<Rightarrow> False | Some m \<Rightarrow> template m)"

text \<open>\<open>vm_obj and vm_obj.runtime.powerState == poweredOn\<close>\<close>

definition is_powered_on :: "vm option \<Rightarrow> bool" where
  "is_powered_on v = (case v of None \<Rightarrow> False | Some m \<Rightarrow> powerState m = poweredOn)"

definition append_change :: "device_spec \<Rightarrow> helper \<Rightarrow> helper" where
  "append_change spec h = h\<lparr>change_detected := True, deviceChange := deviceChange h @ [spec]\<rparr>"

definition remove_floppy :: "vm option \<Rightarrow> helper \<Rightarrow> helper" where
  "remove_floppy vm_obj h =
     (if is_template vm_obj then h
      else case get_vm_floppy_device vm_obj of
        None \<Rightarrow> h
      | Some floppy_device \<Rightarrow>
          append_change \<lparr>operation = remove, device = VirtualFloppy floppy_device\<rparr> h)"

text \<open>
  The update branch of \<open>configure_floppy\<close>: the device read from the machine with a new
  backing and new connection flags. The backing comes first, so a backing that cannot be
  built raises before anything else is done.
\<close>

definition updated_floppy :: "params \<Rightarrow> vm option \<Rightarrow> floppy \<Rightarrow> exn + floppy" where
  "updated_floppy p vm_obj floppy_device =
     (let floppy_type = param_type p;
          c1 = ConnectInfo
                 \<lparr>allowGuestControl := True,
                  startConnected := (floppy_type \<noteq> Some ''none'' \<and> start_connected p)\<rparr>;
          c2 = (if is_powered_on vm_obj
                then c1\<lparr>connected := (floppy_type \<noteq> Some ''none'')\<rparr> else c1)
      in if floppy_type \<in> {Some ''client'', Some ''none''} then
           Inr (floppy_device\<lparr>backing := RemoteDeviceBackingInfo, connectable := c2\<rparr>)
         else if floppy_type = Some ''flp'' then
           (case ImageBackingInfo_init (image_file p) of
              Inl x \<Rightarrow> Inl x
            | Inr b \<Rightarrow> Inr (floppy_device\<lparr>backing := b, connectable := c2\<rparr>))
         else Inr (floppy_device\<lparr>connectable := c2\<rparr>))"

text \<open>
  The creation branch: the specification of \<open>create_floppy\<close>, with the connection flags
  rewritten when the machine is powered on.
\<close>

definition created_floppy :: "params \<Rightarrow> vm option \<Rightarrow> device_spec + device \<Rightarrow> exn + device_spec" where
  "created_floppy p vm_obj sio_device =
     (let floppy_type = param_type p in
      case create_floppy sio_device floppy_type (image_file p) of
        Inl x \<Rightarrow> Inl x
      | Inr floppy_spec \<Rightarrow>
          Inr (if is_powered_on vm_obj then
                 (case device floppy_spec of
                    VirtualFloppy f \<Rightarrow>
                      floppy_spec\<lparr>device := VirtualFloppy (f\<lparr>connectable := (connectable f)
                        \<lparr>connected := (floppy_type \<noteq> Some ''none''),
                         startConnected := (floppy_type \<noteq> Some ''none'' \<and> start_connected p)\<rparr>\<rparr>)\<rparr>
                  | _ \<Rightarrow> floppy_spec)
               else floppy_spec))"

text \<open>
  \<open>configure_floppy\<close> returns the helper (\<open>Inr\<close>), or raises (\<open>Inl\<close>) with the
  helper as it is at that moment: a new controller is appended to the change-set before
  the drive is built.
\<close>

definition configure_floppy :: "params \<Rightarrow> vm option \<Rightarrow> helper \<Rightarrow> (exn \<times> helper) + helper" where
  "configure_floppy p vm_obj h =
     (if is_template vm_obj then Inr h
      else case get_vm_floppy_device vm_obj of
        None \<Rightarrow>
          (case get_vm_sio_device vm_obj of
             None \<Rightarrow>
               (let h1 = append_change create_sio_controller h in
                case created_floppy p vm_obj (Inl create_sio_controller) of
                  Inl x \<Rightarrow> Inl (x, h1)
                | Inr floppy_spec \<Rightarrow> Inr (append_change floppy_spec h1))
           | Some sio_device \<Rightarrow>
               (case created_floppy p vm_obj (Inr sio_device) of
                  Inl x \<Rightarrow> Inl (x, h)
                | Inr floppy_spec \<Rightarrow> Inr (append_change floppy_spec h)))
      | Some floppy_device \<Rightarrow>
          (case vm_obj of
             None \<Rightarrow> Inr h
           | Some m \<Rightarrow>
               if is_equal_floppy m floppy_device (param_type p) (image_file p) \<noteq> Some True
               then (case updated_floppy p vm_obj floppy_device of
                       Inl x \<Rightarrow> Inl (x, h)
                     | Inr d \<Rightarrow>
                         Inr (append_change \<lparr>operation = edit, device = VirtualFloppy d\<rparr> h))
               else Inr h))"

subsection \<open>The remote endpoint\<close>

datatype task_state = queued | running | success | error

record task_info =
  info_state :: task_state
  error_msg :: string

text \<open>
  What \<open>vm.ReconfigVM_Task\<close> does: it raises \<open>vim.fault.RestrictedVersion\<close> with a
  message, raises another fault, or returns a task. A task is its \<open>info\<close> at each read,
  and the machine as its handle shows it once the task has ended.
\<close>

datatype submit =
    Raise_RestrictedVersion string
  | Raise_other string
  | Task "nat \<Rightarrow> task_info" vm

record 'f env =
  ReconfigVM_Task :: "vm \<Rightarrow> device_spec list \<Rightarrow> submit"
  gather_vm_facts :: "vm option \<Rightarrow> 'f"

text \<open>
  \<open>wait_for_task\<close> reads the state of the task until it is \<open>error\<close> or
  \<open>success\<close>, with no bound: the result is the index of the read that ended the loop, and
  \<open>None\<close> when no read ends it.
\<close>

partial_function (option) wait_for_task :: "(nat \<Rightarrow> task_info) \<Rightarrow> nat \<Rightarrow> nat option" where
  "wait_for_task task n =
     (if info_state (task n) \<in> {error, success} then Some n
      else wait_for_task task (Suc n))"

subsection \<open>Results and failures\<close>

text \<open>
  The dictionary a run reports: a key that is not in the dictionary is \<open>None\<close>.
\<close>

record 'f result =
  changed :: "bool option"
  failed :: "bool option"
  msg :: "string option"
  instance_facts :: "'f option"

definition empty_result :: "'f result" where
  "empty_result = \<lparr>changed = None, failed = None, msg = None, instance_facts = None\<rparr>"

text \<open>
  How a run ends without returning: \<open>module.fail_json\<close> exits with its keyword arguments,
  \<open>failed\<close> set and the message; or an exception is raised and not caught.
\<close>

datatype 'f abort =
    Fail_json "'f result"
  | Raised exn

definition fail_json :: "string \<Rightarrow> 'f result \<Rightarrow> 'f abort" where
  "fail_json m kwargs = Fail_json (kwargs\<lparr>failed := Some True, msg := Some m\<rparr>)"

text \<open>
  A run of \<open>apply_floppy_op\<close>: what it returns or how it aborts (\<open>None\<close> when it never
  returns), the helper's attributes, and the change-sets it sent to \<open>ReconfigVM_Task\<close>.
\<close>

record 'f run =
  outcome :: "('f abort + 'f result) option"
  helper_after :: helper
  submitted :: "device_spec list list"

text \<open>
  The state and parameter checks, then the pass over the machine. \<open>Inl\<close> is how the run
  ends there, with the helper as it is at that moment.
\<close>

definition floppy_pass :: "params \<Rightarrow> vm option \<Rightarrow> helper \<Rightarrow> ('f abort \<times> helper) + helper" where
  "floppy_pass p vm_obj h =
     (if param_state p = ''absent'' then Inr (remove_floppy vm_obj h)
      else if param_state p = ''present'' then
        (if \<not> truthy (param_type p) then
           Inl (fail_json ''type is mandatory'' empty_result, h)
         else if param_type p \<notin> {Some ''none'', Some ''client'', Some ''flp''} then
           Inl (fail_json ''type is not valid. Permitted values: none, client, image_file''
                  empty_result, h)
         else if param_type p = Some ''image_file'' \<and> \<not> truthy (image_file p) then
           Inl (fail_json ''image_file is mandatory in case type is flp'' empty_result, h)
         else (case configure_floppy p vm_obj h of
                 Inl (x, h') \<Rightarrow> Inl (Raised x, h')
               | Inr h' \<Rightarrow> Inr h'))
      else Inl (Raised AssertionError, h))"

definition apply_floppy_op :: "'f env \<Rightarrow> params \<Rightarrow> vm option \<Rightarrow> helper \<Rightarrow> 'f run" where
  "apply_floppy_op e p v h0 =
     (let h = h0\<lparr>deviceChange := []\<rparr> in
      case floppy_pass p v h of
        Inl (a, h') \<Rightarrow> \<lparr>outcome = Some (Inl a), helper_after = h', submitted = []\<rparr>
      | Inr h' \<Rightarrow>
          if change_detected h' then
            (case v of
               None \<Rightarrow>
                 \<lparr>outcome = Some (Inl (Raised AttributeError)), helper_after = h',
                  submitted = []\<rparr>
             | Some m \<Rightarrow>
                 (case ReconfigVM_Task e m (deviceChange h') of
                    Raise_RestrictedVersion s \<Rightarrow>
                      \<lparr>outcome = Some (Inl (fail_json
                         (''Failed to reconfigure virtual machine due to product versioning restrictions: '' @ s)
                         empty_result)),
                       helper_after = h', submitted = [deviceChange h']\<rparr>
                  | Raise_other s \<Rightarrow>
                      \<lparr>outcome = Some (Inl (Raised (Fault s))), helper_after = h',
                       submitted = [deviceChange h']\<rparr>
                  | Task task m' \<Rightarrow>
                      (case wait_for_task task 0 of
                         None \<Rightarrow>
                           \<lparr>outcome = None, helper_after = h',
                            submitted = [deviceChange h']\<rparr>
                       | Some n \<Rightarrow>
                           if info_state (task n) = error then
                             \<lparr>outcome = Some (Inr
                                \<lparr>changed = Some True, failed = Some True,
                                 msg = Some (error_msg (task n)), instance_facts = None\<rparr>),
                              helper_after = h', submitted = [deviceChange h']\<rparr>
                           else
                             \<lparr>outcome = Some (Inr
                                \<lparr>changed = Some True, failed = Some False,
                                 msg = None, instance_facts = Some (gather_vm_facts e (Some m'))\<rparr>),
                              helper_after = h', submitted = [deviceChange h']\<rparr>)))
          else
            \<lparr>outcome = Some (Inr
               \<lparr>changed = Some False, failed = Some False,
                msg = None, instance_facts = Some (gather_vm_facts e v)\<rparr>),
             helper_after = h', submitted = []\<rparr>)"

subsection \<open>main\<close>

text \<open>
  The arguments of a task as the caller wrote them: \<open>None\<close> is an argument that was left
  out. \<open>module_params\<close> applies the defaults \<open>main\<close> declares in its
  \<open>argument_spec\<close>: \<open>state\<close> defaults to \<open>present\<close>, \<open>start_connected\<close> to false,
  \<open>type\<close> and the others to \<open>None\<close>.
\<close>

record task_args =
  arg_state :: "string option"
  arg_name :: "string option"
  arg_uuid :: "string option"
  arg_type :: "string option"
  arg_image_file :: "string option"
  arg_start_connected :: "bool option"

definition module_params :: "task_args \<Rightarrow> params" where
  "module_params a =
     \<lparr>param_state = (case arg_state a of None \<Rightarrow> ''present'' | Some s \<Rightarrow> s),
      param_name = arg_name a,
      param_uuid = arg_uuid a,
      param_type = (case arg_type a of None \<Rightarrow> None | Some t \<Rightarrow> Some t),
      image_file = arg_image_file a,
      start_connected = (case arg_start_connected a of None \<Rightarrow> False | Some b \<Rightarrow> b)\<rparr>"

text \<open>A task that gives the name of the machine and nothing else.\<close>

definition only_name :: "string \<Rightarrow> task_args" where
  "only_name n =
     \<lparr>arg_state = None, arg_name = Some n, arg_uuid = None, arg_type = None,
      arg_image_file = None, arg_start_connected = None\<rparr>"

text \<open>\<open>PyVmomiHelper.__init__\<close>: no change detected, no change-set yet.\<close>

definition new_helper :: helper where
  "new_helper = \<lparr>change_detected = False, deviceChange = []\<rparr>"

text \<open>\<open>"%s" % (uuid or name)\<close>\<close>

definition uuid_or_name :: "params \<Rightarrow> string" where
  "uuid_or_name p =
     (if truthy (param_uuid p) then (case param_uuid p of Some u \<Rightarrow> u | None \<Rightarrow> ''None'')
      else (case param_name p of Some n \<Rightarrow> n | None \<Rightarrow> ''None''))"

text \<open>
  \<open>main\<close>, from the machine \<open>get_vm\<close> found (\<open>None\<close> when there is none). In the
  outcome, \<open>Inr r\<close> is \<open>exit_json\<close> with the dictionary \<open>r\<close>.
\<close>

definition main :: "'f env \<Rightarrow> task_args \<Rightarrow> vm option \<Rightarrow> 'f run" where
  "main e a v =
     (let p = module_params a in
      case v of
        None \<Rightarrow>
          \<lparr>outcome = Some (Inl (fail_json
             (''Unable to manage floppy disk for non-existing VM '' @ uuid_or_name p)
             empty_result)),
           helper_after = new_helper, submitted = []\<rparr>
      | Some m \<Rightarrow>
          (let r = apply_floppy_op e p (Some m) new_helper in
           case outcome r of
             Some (Inr res) \<Rightarrow>
               (let res' = (if failed res = None then res\<lparr>failed := Some False\<rparr> else res) in
                if failed res' = Some True then
                  (case msg res' of
                     None \<Rightarrow> r\<lparr>outcome := Some (Inl (Raised TypeError))\<rparr>
                   | Some s \<Rightarrow> r\<lparr>outcome := Some (Inl (fail_json s res'))\<rparr>)
                else r\<lparr>outcome := Some (Inr res')\<rparr>)
           | _ \<Rightarrow> r))"

subsection \<open>A remote endpoint that applies what it is sent\<close>

text \<open>
  The endpoint is not part of the module. For the statements about two runs in a row, this
  is the endpoint that does what the change-set says and nothing else: the operations are
  applied in order; an added device is appended, an edited device replaces the device with
  its key, a removed device is deleted; the power state and the template flag are kept.
\<close>

definition apply_change :: "device_spec \<Rightarrow> device list \<Rightarrow> device list" where
  "apply_change spec ds =
     (case operation spec of
        add \<Rightarrow> ds @ [device spec]
      | edit \<Rightarrow> map (\<lambda>d. if device_key d = device_key (device spec) then device spec else d) ds
      | remove \<Rightarrow> filter (\<lambda>d. device_key d \<noteq> device_key (device spec)) ds)"

definition reconfig_vm :: "vm \<Rightarrow> device_spec list \<Rightarrow> vm" where
  "reconfig_vm m dc = m\<lparr>devices := foldl (\<lambda>ds spec. apply_change spec ds) (devices m) dc\<rparr>"

text \<open>A task that has succeeded at its first read.\<close>

definition done_task :: "nat \<Rightarrow> task_info" where
  "done_task n = \<lparr>info_state = success, error_msg = []\<rparr>"

definition faithful_env :: "unit env" where
  "faithful_env =
     \<lparr>ReconfigVM_Task = (\<lambda>m dc. Task done_task (reconfig_vm m dc)),
      gather_vm_facts = (\<lambda>v. ())\<rparr>"

text \<open>
  The two branches of \<open>configure_floppy\<close> that emit a floppy operation: the machine has no
  floppy drive and one is created; the machine has one that \<open>is_equal_floppy\<close> does not
  accept and it is edited.
\<close>

definition creates :: "vm option \<Rightarrow> bool" where
  "creates v = (\<not> is_template v \<and> get_vm_floppy_device v = None)"

definition edits :: "params \<Rightarrow> vm option \<Rightarrow> bool" where
  "edits p v =
     (case v of
        None \<Rightarrow> False
      | Some m \<Rightarrow>
          \<not> template m \<and>
          (case first_floppy (devices m) of
             None \<Rightarrow> False
           | Some f \<Rightarrow> is_equal_floppy m f (param_type p) (image_file p) \<noteq> Some True))"

definition needs_change :: "params \<Rightarrow> vm \<Rightarrow> bool" where
  "needs_change p m = (creates (Some m) \<or> edits p (Some m))"

text \<open>
  The machine after a run against the endpoint that applies what it is sent: the machine
  itself when the run sent nothing.
\<close>

definition vm_after_run :: "'f run \<Rightarrow> vm \<Rightarrow> vm" where
  "vm_after_run r m = (case submitted r of [] \<Rightarrow> m | dc # rest \<Rightarrow> reconfig_vm m dc)"

text \<open>An endpoint that refuses every reconfiguration with a version restriction.\<close>

definition restricted_env :: "string \<Rightarrow> unit env" where
  "restricted_env s =
     \<lparr>ReconfigVM_Task = (\<lambda>m dc. Raise_RestrictedVersion s),
      gather_vm_facts = (\<lambda>v. ())\<rparr>"

text \<open>An endpoint whose task ends in the error state with a message.\<close>

definition failing_task :: "string \<Rightarrow> nat \<Rightarrow> task_info" where
  "failing_task s n =
     (if n < 2 then \<lparr>info_state = running, error_msg = []\<rparr>
      else \<lparr>info_state = error, error_msg = s\<rparr>)"

definition failing_env :: "string \<Rightarrow> unit env" where
  "failing_env s =
     \<lparr>ReconfigVM_Task = (\<lambda>m dc. Task (failing_task s) m),
      gather_vm_facts = (\<lambda>v. ())\<rparr>"

subsection \<open>Machines and tasks used as examples\<close>

definition bare_vm :: vm where
  "bare_vm = \<lparr>template = False, powerState = poweredOff, devices = [OtherDevice 1000]\<rparr>"

definition template_vm :: vm where
  "template_vm = \<lparr>template = True, powerState = poweredOff, devices = []\<rparr>"

definition image_floppy :: floppy where
  "image_floppy =
     \<lparr>key = 8000, controllerKey = 400,
      backing = ImageBackingInfo ''[datastore1] base.flp'',
      connectable = \<lparr>allowGuestControl = True, startConnected = True, connected = False\<rparr>\<rparr>"

definition floppy_vm :: vm where
  "floppy_vm =
     \<lparr>template = False, powerState = poweredOff,
      devices = [VirtualSIOController 400 0, VirtualFloppy image_floppy]\<rparr>"

definition running_vm :: vm where
  "running_vm = \<lparr>template = False, powerState = poweredOn, devices = []\<rparr>"

definition flp_args :: task_args where
  "flp_args =
     \<lparr>arg_state = Some ''present'', arg_name = Some ''vm1'', arg_uuid = None,
      arg_type = Some ''flp'', arg_image_file = Some ''[datastore1] base.flp'',
      arg_start_connected = Some True\<rparr>"

definition flp_args_no_image :: task_args where
  "flp_args_no_image =
     \<lparr>arg_state = Some ''present'', arg_name = Some ''vm1'', arg_uuid = None,
      arg_type = Some ''flp'', arg_image_file = None, arg_start_connected = None\<rparr>"

definition flp_args_empty_image :: task_args where
  "flp_args_empty_image =
     \<lparr>arg_state = Some ''present'', arg_name = Some ''vm1'', arg_uuid = None,
      arg_type = Some ''flp'', arg_image_file = Some [], arg_start_connected = None\<rparr>"

definition client_args :: task_args where
  "client_args =
     \<lparr>arg_state = None, arg_name = Some ''vm1'', arg_uuid = None,
      arg_type = Some ''client'', arg_image_file = None, arg_start_connected = None\<rparr>"

subsection \<open>The equivalence rules as the specification words them\<close>

text \<open>
  The specification's data model: a descriptor with a kind and an optional image path, and
  a snapshot of the current device. \<open>isEquivalent\<close> follows the three rules of the
  specification word by word; it is compared with \<open>is_equal_floppy\<close> below.
\<close>

datatype kind = Disconnected | ClientRedirected | ImageBacked

record descriptor =
  desc_kind :: kind
  imagePath :: "string option"

datatype backing_kind = RemoteRedirect | Image | OtherKind

record current_state =
  backingKind :: backing_kind
  backingPath :: "string option"
  cur_allowGuestControl :: bool
  cur_startConnected :: bool
  cur_connected :: bool

definition isEquivalent :: "current_state \<Rightarrow> descriptor \<Rightarrow> power_state \<Rightarrow> bool" where
  "isEquivalent c d hostPowerState =
     (case desc_kind d of
        Disconnected \<Rightarrow>
          backingKind c = RemoteRedirect \<and> cur_allowGuestControl c = True \<and>
          cur_startConnected c = False \<and>
          (hostPowerState \<noteq> poweredOn \<or> cur_connected c = False)
      | ClientRedirected \<Rightarrow>
          backingKind c = RemoteRedirect \<and> cur_allowGuestControl c = True \<and>
          cur_startConnected c = True \<and>
          (hostPowerState \<noteq> poweredOn \<or> cur_connected c = True)
      | ImageBacked \<Rightarrow>
          backingKind c = Image \<and> backingPath c = imagePath d \<and>
          cur_allowGuestControl c = True \<and> cur_startConnected c = True \<and>
          (hostPowerState \<noteq> poweredOn \<or> cur_connected c = True))"

text \<open>The snapshot of a device of the machine, and the descriptor of the parameters.\<close>

definition snapshot :: "floppy \<Rightarrow> current_state" where
  "snapshot f =
     \<lparr>backingKind = (case backing f of
                       RemoteDeviceBackingInfo \<Rightarrow> RemoteRedirect
                     | ImageBackingInfo n \<Rightarrow> Image
                     | _ \<Rightarrow> OtherKind),
      backingPath = (case backing f of ImageBackingInfo n \<Rightarrow> Some n | _ \<Rightarrow> None),
      cur_allowGuestControl = allowGuestControl (connectable f),
      cur_startConnected = startConnected (connectable f),
      cur_connected = connected (connectable f)\<rparr>"

fun kind_of :: "string \<Rightarrow> kind option" where
  "kind_of t =
     (if t = ''none'' then Some Disconnected
      else if t = ''client'' then Some ClientRedirected
      else if t = ''flp'' then Some ImageBacked
      else None)"

section \<open>Properties\<close>

subsection \<open>Auxiliary facts\<close>

lemma fresh_deviceChange [simp]: "new_helper\<lparr>deviceChange := []\<rparr> = new_helper"
  by (simp add: new_helper_def)

lemma new_helper_flag: "\<not> change_detected new_helper"
  by (simp add: new_helper_def)

lemma remove_floppy_flag:
  "change_detected (remove_floppy v new_helper) = (deviceChange (remove_floppy v new_helper) \<noteq> [])"
  by (simp add: remove_floppy_def append_change_def new_helper_def split: option.splits)

lemma configure_floppy_flag:
  "configure_floppy p v new_helper = Inr h' \<Longrightarrow> change_detected h' = (deviceChange h' \<noteq> [])"
  by (auto simp: configure_floppy_def append_change_def new_helper_def Let_def
      split: option.splits if_splits sum.splits)

lemma floppy_pass_flag:
  "floppy_pass p v new_helper = Inr h' \<Longrightarrow> change_detected h' = (deviceChange h' \<noteq> [])"
  by (auto simp: floppy_pass_def remove_floppy_flag configure_floppy_flag
      split: if_splits sum.splits)

lemma floppy_pass_present:
  "param_state p = ''present'' \<Longrightarrow>
   param_type p \<in> {Some ''none'', Some ''client'', Some ''flp''} \<Longrightarrow>
   floppy_pass p v h =
     (case configure_floppy p v h of Inl (x, h') \<Rightarrow> Inl (Raised x, h') | Inr h' \<Rightarrow> Inr h')"
  by (auto simp: floppy_pass_def)

lemma wait_done_task: "wait_for_task done_task 0 = Some 0"
  by (subst wait_for_task.simps) (simp add: done_task_def)

lemma wait_failing_task: "wait_for_task (failing_task s) 0 = Some 2"
proof -
  have "wait_for_task (failing_task s) 2 = Some 2"
    by (subst wait_for_task.simps) (simp add: failing_task_def)
  then have "wait_for_task (failing_task s) (Suc 0) = Some 2"
    by (subst wait_for_task.simps) (simp add: failing_task_def numeral_2_eq_2)
  then show ?thesis
    by (subst wait_for_task.simps) (simp add: failing_task_def)
qed

lemma created_floppy_shape:
  "param_type p = Some ''flp'' \<longrightarrow> image_file p \<noteq> None \<Longrightarrow>
   \<exists>g. created_floppy p v s = Inr \<lparr>operation = add, device = VirtualFloppy g\<rparr>
      \<and> controllerKey g = device_key (case s of Inl spec \<Rightarrow> device spec | Inr d \<Rightarrow> d)"
  by (auto simp: created_floppy_def create_floppy_def ImageBackingInfo_init_def Let_def)

lemma created_floppy_start_connected:
  "created_floppy p v s = Inr spec \<Longrightarrow> \<not> is_powered_on v \<Longrightarrow>
   \<exists>f. spec = \<lparr>operation = add, device = VirtualFloppy f\<rparr>
      \<and> startConnected (connectable f) = (param_type p \<noteq> Some ''none'')"
  by (auto simp: created_floppy_def create_floppy_def ImageBackingInfo_init_def ConnectInfo_def
      Let_def split: if_splits option.splits)

lemma created_floppy_start_connected_param:
  "\<not> is_powered_on v \<Longrightarrow>
   created_floppy (p\<lparr>start_connected := b\<rparr>) v s = created_floppy p v s"
  by (simp add: created_floppy_def Let_def split: sum.splits)

subsection \<open>The claims\<close>

text \<open>
  C1. When the machine has a floppy drive and \<open>is_equal_floppy\<close> returns true for it and the
  parameters, the pass for \<open>present\<close> returns the helper as it was: nothing is appended to
  the change-set (no edit, no added device, no added controller), and a change-set that
  was empty stays empty.
\<close>

theorem equivalent_emits_nothing:
  assumes "get_vm_floppy_device (Some m) = Some f"
    and "is_equal_floppy m f (param_type p) (image_file p) = Some True"
  shows "configure_floppy p (Some m) h = Inr h
       \<and> (case configure_floppy p (Some m) (h\<lparr>deviceChange := []\<rparr>) of
            Inr h' \<Rightarrow> deviceChange h' = [] \<and> change_detected h' = change_detected h
          | Inl x \<Rightarrow> False)"
  using assms by (simp add: configure_floppy_def)

theorem equivalent_emits_nothing_witness:
  "configure_floppy (module_params flp_args) (Some floppy_vm) new_helper = Inr new_helper
 \<and> (case configure_floppy (module_params flp_args) (Some floppy_vm)
           (new_helper\<lparr>deviceChange := []\<rparr>) of
      Inr h' \<Rightarrow> deviceChange h' = [] \<and> change_detected h' = change_detected new_helper
    | Inl x \<Rightarrow> False)"
proof -
  have "get_vm_floppy_device (Some floppy_vm) = Some image_floppy"
    by (simp add: get_vm_floppy_device_def floppy_vm_def)
  moreover have "is_equal_floppy floppy_vm image_floppy (param_type (module_params flp_args))
                   (image_file (module_params flp_args)) = Some True"
    by (simp add: is_equal_floppy_def floppy_vm_def image_floppy_def module_params_def
        flp_args_def)
  ultimately show ?thesis
    by (rule equivalent_emits_nothing)
qed

text \<open>
  C2. For each of the three types, \<open>is_equal_floppy\<close> returns the truth value of the rule
  the specification gives for that kind, on the snapshot of the device and the power state
  of the machine. It is a function of its arguments and of nothing else.
\<close>

theorem is_equal_floppy_rules:
  "is_equal_floppy m f (Some ''none'') path
     = Some (isEquivalent (snapshot f) \<lparr>desc_kind = Disconnected, imagePath = path\<rparr> (powerState m))
 \<and> is_equal_floppy m f (Some ''client'') path
     = Some (isEquivalent (snapshot f) \<lparr>desc_kind = ClientRedirected, imagePath = path\<rparr> (powerState m))
 \<and> is_equal_floppy m f (Some ''flp'') path
     = Some (isEquivalent (snapshot f) \<lparr>desc_kind = ImageBacked, imagePath = path\<rparr> (powerState m))"
  by (cases "backing f") (simp_all add: is_equal_floppy_def isEquivalent_def snapshot_def)

theorem is_equal_floppy_rules_witness:
  "is_equal_floppy floppy_vm image_floppy (Some ''none'') None = Some False
 \<and> is_equal_floppy floppy_vm image_floppy (Some ''client'') None = Some False
 \<and> is_equal_floppy floppy_vm image_floppy (Some ''flp'') (Some ''[datastore1] base.flp'') = Some True"
  using is_equal_floppy_rules [of floppy_vm image_floppy None]
    is_equal_floppy_rules [of floppy_vm image_floppy "Some ''[datastore1] base.flp''"]
  by (simp add: isEquivalent_def snapshot_def floppy_vm_def image_floppy_def)

text \<open>
  C3 fails on the code. The check for a missing image file compares the type with
  \<open>image_file\<close>, which the check before it has already refused, so it never fires. With
  type \<open>flp\<close> and an empty image file, which that check counts as missing, on a machine
  without a floppy drive, the run sends a change-set that adds a drive backed by an image
  with an empty file name, and reports a change. With the image file left out, the run
  ends in a \<open>TypeError\<close> raised while the drive is built, after the new controller was
  appended, and not in the failure the check was written for.
\<close>

theorem flp_with_empty_image_file_is_submitted:
  "main faithful_env flp_args_empty_image (Some bare_vm) =
     \<lparr>outcome = Some (Inr \<lparr>changed = Some True, failed = Some False, msg = None,
                           instance_facts = Some ()\<rparr>),
      helper_after =
        \<lparr>change_detected = True,
         deviceChange =
           [\<lparr>operation = add, device = VirtualSIOController 0 0\<rparr>,
            \<lparr>operation = add,
             device = VirtualFloppy
               \<lparr>key = - 1, controllerKey = 0, backing = ImageBackingInfo [],
                connectable = \<lparr>allowGuestControl = True, startConnected = True,
                               connected = False\<rparr>\<rparr>\<rparr>]\<rparr>,
      submitted =
        [[\<lparr>operation = add, device = VirtualSIOController 0 0\<rparr>,
          \<lparr>operation = add,
           device = VirtualFloppy
             \<lparr>key = - 1, controllerKey = 0, backing = ImageBackingInfo [],
              connectable = \<lparr>allowGuestControl = True, startConnected = True,
                             connected = False\<rparr>\<rparr>\<rparr>]]\<rparr>
 \<and> main faithful_env flp_args_no_image (Some bare_vm) =
     \<lparr>outcome = Some (Inl (Raised TypeError)),
      helper_after =
        \<lparr>change_detected = True,
         deviceChange = [\<lparr>operation = add, device = VirtualSIOController 0 0\<rparr>]\<rparr>,
      submitted = []\<rparr>"
  by (simp add: main_def module_params_def flp_args_empty_image_def flp_args_no_image_def
      bare_vm_def apply_floppy_op_def floppy_pass_def configure_floppy_def is_template_def
      get_vm_floppy_device_def get_vm_sio_device_def append_change_def new_helper_def
      create_sio_controller_def created_floppy_def create_floppy_def is_powered_on_def
      ImageBackingInfo_init_def ConnectInfo_def faithful_env_def wait_done_task done_task_def
      Let_def)

text \<open>
  C5. When the pass of a run ends with an empty change-set, \<open>apply_floppy_op\<close> returns
  \<open>changed\<close> false and \<open>failed\<close> false and sends nothing to the endpoint. This is so
  for state \<open>absent\<close> on a machine without a floppy drive.
\<close>

theorem no_change_no_submit:
  "((floppy_pass p v new_helper :: ('f abort \<times> helper) + helper) = Inr h' \<and> deviceChange h' = []
      \<longrightarrow> apply_floppy_op (e :: 'f env) p v new_helper =
            \<lparr>outcome = Some (Inr \<lparr>changed = Some False, failed = Some False, msg = None,
                                  instance_facts = Some (gather_vm_facts e v)\<rparr>),
             helper_after = h', submitted = []\<rparr>)
 \<and> (param_state p = ''absent'' \<and> get_vm_floppy_device v = None
      \<longrightarrow> apply_floppy_op e p v new_helper =
            \<lparr>outcome = Some (Inr \<lparr>changed = Some False, failed = Some False, msg = None,
                                  instance_facts = Some (gather_vm_facts e v)\<rparr>),
             helper_after = new_helper, submitted = []\<rparr>)"
proof (intro conjI impI)
  assume a: "(floppy_pass p v new_helper :: ('f abort \<times> helper) + helper) = Inr h' \<and> deviceChange h' = []"
  then have "\<not> change_detected h'" using floppy_pass_flag[OF conjunct1[OF a]] by simp
  with a show "apply_floppy_op e p v new_helper =
            \<lparr>outcome = Some (Inr \<lparr>changed = Some False, failed = Some False, msg = None,
                                  instance_facts = Some (gather_vm_facts e v)\<rparr>),
             helper_after = h', submitted = []\<rparr>"
    by (simp add: apply_floppy_op_def)
next
  assume a: "param_state p = ''absent'' \<and> get_vm_floppy_device v = None"
  then have "(floppy_pass p v new_helper :: ('f abort \<times> helper) + helper) = Inr new_helper"
    by (simp add: floppy_pass_def remove_floppy_def)
  then show "apply_floppy_op e p v new_helper =
            \<lparr>outcome = Some (Inr \<lparr>changed = Some False, failed = Some False, msg = None,
                                  instance_facts = Some (gather_vm_facts e v)\<rparr>),
             helper_after = new_helper, submitted = []\<rparr>"
    by (simp add: apply_floppy_op_def new_helper_flag)
qed

theorem no_change_no_submit_witness:
  "apply_floppy_op faithful_env (module_params flp_args) (Some floppy_vm) new_helper =
      \<lparr>outcome = Some (Inr \<lparr>changed = Some False, failed = Some False, msg = None,
                            instance_facts = Some ()\<rparr>),
       helper_after = new_helper, submitted = []\<rparr>
 \<and> apply_floppy_op faithful_env (module_params (only_name ''vm1'')\<lparr>param_state := ''absent''\<rparr>)
      (Some bare_vm) new_helper =
      \<lparr>outcome = Some (Inr \<lparr>changed = Some False, failed = Some False, msg = None,
                            instance_facts = Some ()\<rparr>),
       helper_after = new_helper, submitted = []\<rparr>"
proof -
  have 1: "(floppy_pass (module_params flp_args) (Some floppy_vm) new_helper
              :: (unit abort \<times> helper) + helper)
             = Inr new_helper \<and> deviceChange new_helper = []"
    by (simp add: floppy_pass_def module_params_def flp_args_def configure_floppy_def
        is_template_def floppy_vm_def get_vm_floppy_device_def is_equal_floppy_def
        image_floppy_def new_helper_def)
  have 2: "param_state (module_params (only_name ''vm1'')\<lparr>param_state := ''absent''\<rparr>) = ''absent''
         \<and> get_vm_floppy_device (Some bare_vm) = None"
    by (simp add: get_vm_floppy_device_def bare_vm_def)
  show ?thesis
    using 1 2
      no_change_no_submit [of "module_params flp_args" "Some floppy_vm" new_helper faithful_env]
      no_change_no_submit [of "module_params (only_name ''vm1'')\<lparr>param_state := ''absent''\<rparr>"
        "Some bare_vm" new_helper faithful_env]
    by (simp add: faithful_env_def)
qed

text \<open>
  C6. On a template, for state \<open>absent\<close> and for state \<open>present\<close> with any of the three
  types, whatever the other parameters: nothing is emitted, nothing is sent, and the run
  returns \<open>changed\<close> false and \<open>failed\<close> false.
\<close>

theorem template_is_noop:
  assumes "template m"
    and "param_state p = ''absent'' \<or>
         (param_state p = ''present'' \<and> param_type p \<in> {Some ''none'', Some ''client'', Some ''flp''})"
  shows "apply_floppy_op e p (Some m) new_helper =
           \<lparr>outcome = Some (Inr \<lparr>changed = Some False, failed = Some False, msg = None,
                                 instance_facts = Some (gather_vm_facts e (Some m))\<rparr>),
            helper_after = new_helper, submitted = []\<rparr>"
proof -
  have "(floppy_pass p (Some m) new_helper :: ('a abort \<times> helper) + helper) = Inr new_helper"
    using assms
    by (auto simp: floppy_pass_def remove_floppy_def configure_floppy_def is_template_def)
  then show ?thesis
    by (simp add: apply_floppy_op_def new_helper_flag)
qed

theorem template_is_noop_witness:
  "apply_floppy_op faithful_env (module_params flp_args) (Some template_vm) new_helper =
           \<lparr>outcome = Some (Inr \<lparr>changed = Some False, failed = Some False, msg = None,
                                 instance_facts = Some ()\<rparr>),
            helper_after = new_helper, submitted = []\<rparr>"
  using template_is_noop [of template_vm "module_params flp_args" faithful_env]
  by (simp add: template_vm_def module_params_def flp_args_def)

text \<open>
  C7 as it is stated fails on a template: the machine has no floppy drive and no
  controller, and the pass emits nothing.
\<close>

theorem template_without_devices_emits_nothing:
  "get_vm_floppy_device (Some template_vm) = None
 \<and> get_vm_sio_device (Some template_vm) = None
 \<and> configure_floppy (module_params flp_args) (Some template_vm) new_helper =
     Inr \<lparr>change_detected = False, deviceChange = []\<rparr>"
  by (simp add: get_vm_floppy_device_def get_vm_sio_device_def template_vm_def
      configure_floppy_def is_template_def new_helper_def)

text \<open>
  C7, as amended. On a machine that is not a template and has neither a floppy drive nor an
  SIO controller, with an image file given when the type is \<open>flp\<close>, the pass for
  \<open>present\<close> emits exactly two operations, in this order: the addition of a new SIO
  controller, then the addition of a floppy drive whose controller key is the key of that
  new controller.
\<close>

theorem new_floppy_adds_controller_first:
  assumes "\<not> is_template v" and "get_vm_floppy_device v = None" and "get_vm_sio_device v = None"
    and "param_type p = Some ''flp'' \<longrightarrow> image_file p \<noteq> None"
  shows "\<exists>f. configure_floppy p v new_helper =
              Inr \<lparr>change_detected = True,
                   deviceChange = [\<lparr>operation = add, device = VirtualSIOController 0 0\<rparr>,
                                   \<lparr>operation = add, device = VirtualFloppy f\<rparr>]\<rparr>
            \<and> controllerKey f = device_key (VirtualSIOController 0 0)
            \<and> created_floppy p v (Inl create_sio_controller)
                = Inr \<lparr>operation = add, device = VirtualFloppy f\<rparr>"
proof -
  from created_floppy_shape [OF assms(4), of v "Inl create_sio_controller"]
  obtain g where g: "created_floppy p v (Inl create_sio_controller)
                       = Inr \<lparr>operation = add, device = VirtualFloppy g\<rparr>"
    "controllerKey g = device_key (device create_sio_controller)"
    by auto
  have "configure_floppy p v new_helper =
          Inr \<lparr>change_detected = True,
               deviceChange = [\<lparr>operation = add, device = VirtualSIOController 0 0\<rparr>,
                               \<lparr>operation = add, device = VirtualFloppy g\<rparr>]\<rparr>"
    using assms(1-3) g(1)
    by (simp add: configure_floppy_def append_change_def new_helper_def
        create_sio_controller_def Let_def)
  with g show ?thesis
    by (auto simp: create_sio_controller_def)
qed

theorem new_floppy_adds_controller_first_witness:
  "\<exists>f. configure_floppy (module_params flp_args) (Some bare_vm) new_helper =
              Inr \<lparr>change_detected = True,
                   deviceChange = [\<lparr>operation = add, device = VirtualSIOController 0 0\<rparr>,
                                   \<lparr>operation = add, device = VirtualFloppy f\<rparr>]\<rparr>
            \<and> controllerKey f = 0
            \<and> backing f = ImageBackingInfo ''[datastore1] base.flp''"
proof -
  have h: "\<not> is_template (Some bare_vm)" "get_vm_floppy_device (Some bare_vm) = None"
    "get_vm_sio_device (Some bare_vm) = None"
    "param_type (module_params flp_args) = Some ''flp'' \<longrightarrow> image_file (module_params flp_args) \<noteq> None"
    by (simp_all add: is_template_def get_vm_floppy_device_def get_vm_sio_device_def bare_vm_def
        module_params_def flp_args_def)
  from new_floppy_adds_controller_first [OF h]
  obtain f where f: "configure_floppy (module_params flp_args) (Some bare_vm) new_helper =
              Inr \<lparr>change_detected = True,
                   deviceChange = [\<lparr>operation = add, device = VirtualSIOController 0 0\<rparr>,
                                   \<lparr>operation = add, device = VirtualFloppy f\<rparr>]\<rparr>"
    "controllerKey f = device_key (VirtualSIOController 0 0)"
    "created_floppy (module_params flp_args) (Some bare_vm) (Inl create_sio_controller)
       = Inr \<lparr>operation = add, device = VirtualFloppy f\<rparr>"
    by blast
  from f(3) have "backing f = ImageBackingInfo ''[datastore1] base.flp''"
    by (auto simp: created_floppy_def create_floppy_def is_powered_on_def bare_vm_def
        ImageBackingInfo_init_def module_params_def flp_args_def Let_def)
  with f(1,2) show ?thesis by auto
qed

text \<open>
  C9. The default of \<open>type\<close> is \<open>None\<close> and the default of \<open>state\<close> is
  \<open>present\<close>. With state \<open>present\<close> and no type, \<open>apply_floppy_op\<close> fails with
  \<open>type is mandatory\<close> and sends nothing to the endpoint, on every machine; so does
  \<open>main\<close> for a task that gives only the name of a machine that exists.
\<close>

theorem type_omitted_fails:
  "param_state (module_params (only_name n)) = ''present''
 \<and> param_type (module_params (only_name n)) = None
 \<and> (param_state p = ''present'' \<and> param_type p = None \<longrightarrow>
      apply_floppy_op e p v h =
        \<lparr>outcome = Some (Inl (Fail_json \<lparr>changed = None, failed = Some True,
                                          msg = Some ''type is mandatory'',
                                          instance_facts = None\<rparr>)),
         helper_after = h\<lparr>deviceChange := []\<rparr>, submitted = []\<rparr>)
 \<and> main e (only_name n) (Some m) =
        \<lparr>outcome = Some (Inl (Fail_json \<lparr>changed = None, failed = Some True,
                                          msg = Some ''type is mandatory'',
                                          instance_facts = None\<rparr>)),
         helper_after = new_helper, submitted = []\<rparr>"
  by (simp add: module_params_def only_name_def apply_floppy_op_def floppy_pass_def
      fail_json_def empty_result_def main_def new_helper_def)

theorem type_omitted_fails_witness:
  "apply_floppy_op faithful_env (module_params (only_name ''vm1'')) (Some bare_vm) new_helper =
        \<lparr>outcome = Some (Inl (Fail_json \<lparr>changed = None, failed = Some True,
                                          msg = Some ''type is mandatory'',
                                          instance_facts = None\<rparr>)),
         helper_after = new_helper, submitted = []\<rparr>"
  using type_omitted_fails [of "''vm1''" "module_params (only_name ''vm1'')" faithful_env "Some bare_vm" new_helper]
  by (simp add: new_helper_def)

text \<open>
  C10. When a floppy drive is created on a machine that is not powered on, the last
  operation of the change-set adds a drive whose \<open>startConnected\<close> is
  \<open>type \<noteq> none\<close>: whenever the pass returns, and it returns when an image file is
  given for type \<open>flp\<close>. Outside a creation on a powered-on machine and an edit of an
  existing drive, the pass does not depend on \<open>start_connected\<close>.
\<close>

theorem start_connected_at_creation:
  "(creates v \<and> \<not> is_powered_on v \<and> (param_type p = Some ''flp'' \<longrightarrow> image_file p \<noteq> None) \<longrightarrow>
      (\<exists>h1 f. configure_floppy p v h = Inr h1
         \<and> last (deviceChange h1) = \<lparr>operation = add, device = VirtualFloppy f\<rparr>
         \<and> startConnected (connectable f) = (param_type p \<noteq> Some ''none'')))
 \<and> (creates v \<and> \<not> is_powered_on v \<and> configure_floppy p v h = Inr h' \<longrightarrow>
      (\<exists>f. last (deviceChange h') = \<lparr>operation = add, device = VirtualFloppy f\<rparr>
         \<and> startConnected (connectable f) = (param_type p \<noteq> Some ''none'')))
 \<and> (\<not> (creates v \<and> is_powered_on v) \<and> \<not> edits p v \<longrightarrow>
      configure_floppy (p\<lparr>start_connected := b\<rparr>) v h = configure_floppy p v h)"
proof -
  have second: "\<exists>f. last (deviceChange h2) = \<lparr>operation = add, device = VirtualFloppy f\<rparr>
         \<and> startConnected (connectable f) = (param_type p \<noteq> Some ''none'')"
    if c: "creates v" and o: "\<not> is_powered_on v" and r: "configure_floppy p v h = Inr h2" for h2
  proof (cases "get_vm_sio_device v")
    case None
    with c r obtain spec where s: "created_floppy p v (Inl create_sio_controller) = Inr spec"
      "h2 = append_change spec (append_change create_sio_controller h)"
      by (auto simp: creates_def configure_floppy_def Let_def split: sum.splits)
    from created_floppy_start_connected [OF s(1) o] s(2) show ?thesis
      by (auto simp: append_change_def)
  next
    case (Some d)
    with c r obtain spec where s: "created_floppy p v (Inr d) = Inr spec"
      "h2 = append_change spec h"
      by (auto simp: creates_def configure_floppy_def split: sum.splits)
    from created_floppy_start_connected [OF s(1) o] s(2) show ?thesis
      by (auto simp: append_change_def)
  qed
  have first: "\<exists>h1 f. configure_floppy p v h = Inr h1
         \<and> last (deviceChange h1) = \<lparr>operation = add, device = VirtualFloppy f\<rparr>
         \<and> startConnected (connectable f) = (param_type p \<noteq> Some ''none'')"
    if c: "creates v" and o: "\<not> is_powered_on v"
      and i: "param_type p = Some ''flp'' \<longrightarrow> image_file p \<noteq> None"
  proof -
    have "\<exists>h1. configure_floppy p v h = Inr h1"
    proof (cases "get_vm_sio_device v")
      case None
      from created_floppy_shape [OF i, of v "Inl create_sio_controller"] c None show ?thesis
        by (auto simp: creates_def configure_floppy_def Let_def)
    next
      case (Some d)
      from created_floppy_shape [OF i, of v "Inr d"] c Some show ?thesis
        by (auto simp: creates_def configure_floppy_def)
    qed
    then obtain h1 where h1: "configure_floppy p v h = Inr h1" by blast
    from second [OF c o h1] h1 show ?thesis by blast
  qed
  have third: "configure_floppy (p\<lparr>start_connected := b\<rparr>) v h = configure_floppy p v h"
    if a: "\<not> (creates v \<and> is_powered_on v)" and ne: "\<not> edits p v"
  proof (cases "is_template v")
    case True
    then show ?thesis by (simp add: configure_floppy_def)
  next
    case nt: False
    show ?thesis
    proof (cases "get_vm_floppy_device v")
      case None
      with nt a have "\<not> is_powered_on v" by (simp add: creates_def)
      with nt None show ?thesis
        by (simp add: configure_floppy_def created_floppy_start_connected_param Let_def
            split: option.splits)
    next
      case (Some f)
      then obtain m where m: "v = Some m" "first_floppy (devices m) = Some f"
        by (cases v) (simp_all add: get_vm_floppy_device_def)
      with nt ne have "is_equal_floppy m f (param_type p) (image_file p) = Some True"
        by (simp add: edits_def is_template_def)
      with nt Some m show ?thesis
        by (simp add: configure_floppy_def)
    qed
  qed
  from first second third show ?thesis by blast
qed

theorem start_connected_at_creation_witness:
  "(\<exists>h1 f. configure_floppy (module_params client_args) (Some bare_vm) new_helper = Inr h1
         \<and> last (deviceChange h1) = \<lparr>operation = add, device = VirtualFloppy f\<rparr>
         \<and> startConnected (connectable f) = True)
 \<and> configure_floppy (module_params client_args\<lparr>start_connected := True\<rparr>) (Some bare_vm) new_helper
     = configure_floppy (module_params client_args) (Some bare_vm) new_helper"
proof -
  have h: "creates (Some bare_vm)" "\<not> is_powered_on (Some bare_vm)"
    "\<not> edits (module_params client_args) (Some bare_vm)"
    by (simp_all add: creates_def edits_def is_template_def is_powered_on_def
        get_vm_floppy_device_def bare_vm_def)
  have t: "param_type (module_params client_args) = Some ''client''"
    by (simp add: module_params_def client_args_def)
  show ?thesis
    using h t start_connected_at_creation [of "Some bare_vm" "module_params client_args" new_helper _ True]
    by simp
qed

subsection \<open>Two runs in a row, and refusals of the endpoint\<close>

lemma first_floppy_append:
  "first_floppy (xs @ ys) = (case first_floppy xs of None \<Rightarrow> first_floppy ys | Some f \<Rightarrow> Some f)"
  by (induction xs rule: first_floppy.induct) simp_all

lemma first_floppy_edit:
  "first_floppy xs = Some f0 \<Longrightarrow> key g = key f0 \<Longrightarrow>
   first_floppy (map (\<lambda>d. if device_key d = key g then VirtualFloppy g else d) xs) = Some g"
  by (induction xs rule: first_floppy.induct) simp_all

lemma configure_floppy_noop:
  "\<not> needs_change p m \<Longrightarrow> configure_floppy p (Some m) h = Inr h"
  by (auto simp: needs_change_def creates_def edits_def configure_floppy_def is_template_def
      get_vm_floppy_device_def split: option.splits)

lemma configure_floppy_change:
  "needs_change p m \<Longrightarrow> configure_floppy p (Some m) h = Inr h' \<Longrightarrow> change_detected h'"
  by (auto simp: needs_change_def creates_def edits_def configure_floppy_def is_template_def
      get_vm_floppy_device_def append_change_def Let_def split: option.splits sum.splits)

lemma after_creation:
  assumes "param_type p \<in> {Some ''none'', Some ''client'', Some ''flp''}"
    and "param_type p = Some ''none'' \<or> start_connected p \<or> \<not> is_powered_on (Some m)"
    and "created_floppy p (Some m) s = Inr \<lparr>operation = add, device = VirtualFloppy g\<rparr>"
    and "powerState m' = powerState m"
  shows "is_equal_floppy m' g (param_type p) (image_file p) = Some True"
  using assms
  by (auto simp: created_floppy_def create_floppy_def is_powered_on_def ConnectInfo_def
      ImageBackingInfo_init_def is_equal_floppy_def Let_def split: if_splits option.splits)

lemma updated_floppy_shape:
  "param_type p = Some ''flp'' \<longrightarrow> image_file p \<noteq> None \<Longrightarrow>
   \<exists>g. updated_floppy p v f = Inr g \<and> key g = key f"
  by (auto simp: updated_floppy_def ImageBackingInfo_init_def Let_def)

lemma after_edit:
  assumes "param_type p \<in> {Some ''none'', Some ''client'', Some ''flp''}"
    and "param_type p = Some ''none'' \<or> start_connected p"
    and "updated_floppy p (Some m) f = Inr g"
    and "powerState m' = powerState m"
  shows "is_equal_floppy m' g (param_type p) (image_file p) = Some True"
  using assms
  by (auto simp: updated_floppy_def is_powered_on_def ConnectInfo_def
      ImageBackingInfo_init_def is_equal_floppy_def Let_def split: if_splits option.splits)

lemma after_pass_equal:
  assumes t: "param_type p \<in> {Some ''none'', Some ''client'', Some ''flp''}"
    and i: "param_type p = Some ''flp'' \<longrightarrow> image_file p \<noteq> None"
    and s: "param_type p = Some ''none'' \<or> start_connected p \<or>
            \<not> (edits p (Some m) \<or> (creates (Some m) \<and> is_powered_on (Some m)))"
    and n: "needs_change p m"
  shows "\<exists>h' g. configure_floppy p (Some m) new_helper = Inr h'
           \<and> first_floppy (devices (reconfig_vm m (deviceChange h'))) = Some g
           \<and> is_equal_floppy (reconfig_vm m (deviceChange h')) g (param_type p) (image_file p)
               = Some True"
proof -
  have ps: "\<And>dc. powerState (reconfig_vm m dc) = powerState m"
    by (simp add: reconfig_vm_def)
  from n have nt: "\<not> template m"
    by (auto simp: needs_change_def creates_def edits_def is_template_def)
  show ?thesis
  proof (cases "first_floppy (devices m)")
    case None
    with nt have cr: "creates (Some m)"
      by (simp add: creates_def is_template_def get_vm_floppy_device_def)
    from nt None have "\<not> edits p (Some m)" by (simp add: edits_def)
    with s cr have s': "param_type p = Some ''none'' \<or> start_connected p \<or> \<not> is_powered_on (Some m)"
      by blast
    show ?thesis
    proof (cases "first_sio (devices m)")
      case sn: None
      obtain g where g: "created_floppy p (Some m) (Inl create_sio_controller)
                           = Inr \<lparr>operation = add, device = VirtualFloppy g\<rparr>"
        using created_floppy_shape [OF i] by blast
      let ?h = "\<lparr>change_detected = True,
                 deviceChange = [create_sio_controller, \<lparr>operation = add, device = VirtualFloppy g\<rparr>]\<rparr>"
      have c: "configure_floppy p (Some m) new_helper = Inr ?h"
        using nt None sn g
        by (simp add: configure_floppy_def is_template_def get_vm_floppy_device_def
            get_vm_sio_device_def append_change_def new_helper_def Let_def)
      have "devices (reconfig_vm m (deviceChange ?h))
              = devices m @ [device create_sio_controller] @ [VirtualFloppy g]"
        by (simp add: reconfig_vm_def apply_change_def create_sio_controller_def)
      then have "first_floppy (devices (reconfig_vm m (deviceChange ?h))) = Some g"
        using None by (simp add: first_floppy_append create_sio_controller_def)
      with after_creation [OF t s' g ps] c show ?thesis by blast
    next
      case (Some d)
      obtain g where g: "created_floppy p (Some m) (Inr d)
                           = Inr \<lparr>operation = add, device = VirtualFloppy g\<rparr>"
        using created_floppy_shape [OF i] by blast
      let ?h = "\<lparr>change_detected = True,
                 deviceChange = [\<lparr>operation = add, device = VirtualFloppy g\<rparr>]\<rparr>"
      have c: "configure_floppy p (Some m) new_helper = Inr ?h"
        using nt None Some g
        by (simp add: configure_floppy_def is_template_def get_vm_floppy_device_def
            get_vm_sio_device_def append_change_def new_helper_def)
      have "devices (reconfig_vm m (deviceChange ?h)) = devices m @ [VirtualFloppy g]"
        by (simp add: reconfig_vm_def apply_change_def)
      then have "first_floppy (devices (reconfig_vm m (deviceChange ?h))) = Some g"
        using None by (simp add: first_floppy_append)
      with after_creation [OF t s' g ps] c show ?thesis by blast
    qed
  next
    case (Some f)
    with n nt have ne: "is_equal_floppy m f (param_type p) (image_file p) \<noteq> Some True"
      by (simp add: needs_change_def creates_def edits_def is_template_def
          get_vm_floppy_device_def)
    with nt Some have "edits p (Some m)" by (simp add: edits_def)
    with s have s': "param_type p = Some ''none'' \<or> start_connected p" by blast
    obtain g where g: "updated_floppy p (Some m) f = Inr g" "key g = key f"
      using updated_floppy_shape [OF i] by blast
    let ?h = "\<lparr>change_detected = True,
               deviceChange = [\<lparr>operation = edit, device = VirtualFloppy g\<rparr>]\<rparr>"
    have c: "configure_floppy p (Some m) new_helper = Inr ?h"
      using nt Some ne g(1)
      by (simp add: configure_floppy_def is_template_def get_vm_floppy_device_def
          append_change_def new_helper_def)
    have "devices (reconfig_vm m (deviceChange ?h))
            = map (\<lambda>d. if device_key d = key g then VirtualFloppy g else d) (devices m)"
      by (simp add: reconfig_vm_def apply_change_def)
    then have "first_floppy (devices (reconfig_vm m (deviceChange ?h))) = Some g"
      using first_floppy_edit [OF Some g(2)] by simp
    with after_edit [OF t s' g(1) ps] c show ?thesis by blast
  qed
qed

text \<open>
  C4 as it is stated fails on a machine whose floppy drive already agrees with the
  parameters: the first run reports no change.
\<close>

theorem equivalent_first_run_reports_no_change:
  "outcome (main faithful_env flp_args (Some floppy_vm)) =
     Some (Inr \<lparr>changed = Some False, failed = Some False, msg = None,
                instance_facts = Some ()\<rparr>)"
  by (simp add: main_def module_params_def flp_args_def floppy_vm_def image_floppy_def
      apply_floppy_op_def floppy_pass_def configure_floppy_def is_template_def
      get_vm_floppy_device_def is_equal_floppy_def new_helper_def faithful_env_def Let_def)

text \<open>
  C4, as amended. For state \<open>present\<close> with one of the three types, with an image file
  given when the type is \<open>flp\<close> (on a template none is needed), against an endpoint that
  applies the change-set it is sent and whose task succeeds, and outside one case: type
  \<open>client\<close> or \<open>flp\<close> with \<open>start_connected\<close> false, when the first run edits an
  existing drive or creates one on a powered-on machine. The first run reports a change
  exactly when the machine is not a template and has no floppy drive or one that
  \<open>is_equal_floppy\<close> does not accept; the second run, on the machine the first run left,
  reports no change and sends nothing; and when the machine is not a template, the machine
  the first run left has a floppy drive that \<open>is_equal_floppy\<close> accepts for the same
  parameters.
\<close>

theorem second_run_reports_no_change:
  assumes st: "param_state p = ''present''"
    and t: "param_type p \<in> {Some ''none'', Some ''client'', Some ''flp''}"
    and i: "template m \<or> param_type p \<noteq> Some ''flp'' \<or> image_file p \<noteq> None"
    and s: "param_type p = Some ''none'' \<or> start_connected p \<or>
            \<not> (edits p (Some m) \<or> (creates (Some m) \<and> is_powered_on (Some m)))"
    and e: "ReconfigVM_Task e m = (\<lambda>dc. Task task (reconfig_vm m dc))"
    and w: "wait_for_task task 0 = Some n" "info_state (task n) = success"
  shows "(\<exists>res. outcome (apply_floppy_op e p (Some m) new_helper) = Some (Inr res)
            \<and> changed res = Some (needs_change p m) \<and> failed res = Some False)
       \<and> apply_floppy_op e2 p (Some (vm_after_run (apply_floppy_op e p (Some m) new_helper) m))
            new_helper =
           \<lparr>outcome = Some (Inr \<lparr>changed = Some False, failed = Some False, msg = None,
              instance_facts = Some (gather_vm_facts e2
                (Some (vm_after_run (apply_floppy_op e p (Some m) new_helper) m)))\<rparr>),
            helper_after = new_helper, submitted = []\<rparr>
       \<and> (\<not> template m \<longrightarrow>
            (\<exists>g. get_vm_floppy_device
                    (Some (vm_after_run (apply_floppy_op e p (Some m) new_helper) m)) = Some g
               \<and> is_equal_floppy (vm_after_run (apply_floppy_op e p (Some m) new_helper) m) g
                    (param_type p) (image_file p) = Some True))"
proof -
  let ?r1 = "apply_floppy_op e p (Some m) new_helper"
  note pass = floppy_pass_present [OF st t]
  have idle: "\<And>m2. \<not> needs_change p m2 \<Longrightarrow>
      apply_floppy_op e2 p (Some m2) new_helper =
           \<lparr>outcome = Some (Inr \<lparr>changed = Some False, failed = Some False, msg = None,
              instance_facts = Some (gather_vm_facts e2 (Some m2))\<rparr>),
            helper_after = new_helper, submitted = []\<rparr>"
    by (simp add: apply_floppy_op_def pass configure_floppy_noop new_helper_flag)
  show ?thesis
  proof (cases "needs_change p m")
    case True
    then have nt: "\<not> template m"
      by (auto simp: needs_change_def creates_def edits_def is_template_def)
    with i have i': "param_type p = Some ''flp'' \<longrightarrow> image_file p \<noteq> None" by blast
    from after_pass_equal [OF t i' s True]
    obtain h' g where h: "configure_floppy p (Some m) new_helper = Inr h'"
      and g: "first_floppy (devices (reconfig_vm m (deviceChange h'))) = Some g"
        "is_equal_floppy (reconfig_vm m (deviceChange h')) g (param_type p) (image_file p)
           = Some True"
      by blast
    have c: "change_detected h'" using True h by (rule configure_floppy_change)
    have r1: "?r1 = \<lparr>outcome = Some (Inr \<lparr>changed = Some True, failed = Some False, msg = None,
                 instance_facts = Some (gather_vm_facts e (Some (reconfig_vm m (deviceChange h'))))\<rparr>),
               helper_after = h', submitted = [deviceChange h']\<rparr>"
      using c e w h by (simp add: apply_floppy_op_def pass)
    then have after: "vm_after_run ?r1 m = reconfig_vm m (deviceChange h')"
      by (simp add: vm_after_run_def)
    have tm: "template (reconfig_vm m (deviceChange h')) = template m"
      by (simp add: reconfig_vm_def)
    have "\<not> needs_change p (vm_after_run ?r1 m)"
      unfolding after using g nt tm
      by (simp add: needs_change_def creates_def edits_def get_vm_floppy_device_def)
    from idle [OF this] r1 True g show ?thesis
      unfolding after by (simp add: get_vm_floppy_device_def)
  next
    case False
    then have h: "configure_floppy p (Some m) new_helper = Inr new_helper"
      by (rule configure_floppy_noop)
    have r1: "?r1 = \<lparr>outcome = Some (Inr \<lparr>changed = Some False, failed = Some False, msg = None,
                 instance_facts = Some (gather_vm_facts e (Some m))\<rparr>),
               helper_after = new_helper, submitted = []\<rparr>"
      using h by (simp add: apply_floppy_op_def pass new_helper_flag)
    then have after: "vm_after_run ?r1 m = m"
      by (simp add: vm_after_run_def)
    have eq: "\<not> template m \<longrightarrow>
            (\<exists>g. get_vm_floppy_device (Some m) = Some g
               \<and> is_equal_floppy m g (param_type p) (image_file p) = Some True)"
      using False
      by (auto simp: needs_change_def creates_def edits_def is_template_def
          get_vm_floppy_device_def split: option.splits)
    from idle [OF False] r1 False eq show ?thesis unfolding after by simp
  qed
qed

theorem second_run_reports_no_change_witness:
  "(\<exists>res. outcome (apply_floppy_op faithful_env (module_params client_args) (Some bare_vm) new_helper)
             = Some (Inr res)
          \<and> changed res = Some True \<and> failed res = Some False)
 \<and> outcome (apply_floppy_op faithful_env (module_params client_args)
      (Some (vm_after_run
         (apply_floppy_op faithful_env (module_params client_args) (Some bare_vm) new_helper) bare_vm))
      new_helper)
    = Some (Inr \<lparr>changed = Some False, failed = Some False, msg = None,
                 instance_facts = Some ()\<rparr>)
 \<and> (\<exists>g. get_vm_floppy_device (Some (vm_after_run
         (apply_floppy_op faithful_env (module_params client_args) (Some bare_vm) new_helper) bare_vm))
         = Some g
      \<and> is_equal_floppy (vm_after_run
         (apply_floppy_op faithful_env (module_params client_args) (Some bare_vm) new_helper) bare_vm)
         g (Some ''client'') None = Some True)"
proof -
  have h: "param_state (module_params client_args) = ''present''"
    "param_type (module_params client_args) \<in> {Some ''none'', Some ''client'', Some ''flp''}"
    "template bare_vm \<or> param_type (module_params client_args) \<noteq> Some ''flp''
       \<or> image_file (module_params client_args) \<noteq> None"
    "param_type (module_params client_args) = Some ''none''
       \<or> start_connected (module_params client_args)
       \<or> \<not> (edits (module_params client_args) (Some bare_vm)
             \<or> (creates (Some bare_vm) \<and> is_powered_on (Some bare_vm)))"
    "ReconfigVM_Task faithful_env bare_vm = (\<lambda>dc. Task done_task (reconfig_vm bare_vm dc))"
    "wait_for_task done_task 0 = Some 0" "info_state (done_task 0) = success"
    by (simp_all add: module_params_def client_args_def faithful_env_def wait_done_task
        done_task_def edits_def is_powered_on_def bare_vm_def)
  have n: "needs_change (module_params client_args) bare_vm"
    "\<not> template bare_vm"
    "param_type (module_params client_args) = Some ''client''"
    "image_file (module_params client_args) = None"
    by (simp_all add: needs_change_def creates_def is_template_def get_vm_floppy_device_def
        bare_vm_def module_params_def client_args_def)
  show ?thesis
    using second_run_reports_no_change [OF h, of faithful_env] n
    by simp
qed

text \<open>
  The case the amended statement leaves out: with type \<open>client\<close> and \<open>start_connected\<close>
  left at its default, the edit of an existing drive writes \<open>startConnected\<close> false, which
  \<open>is_equal_floppy\<close> never accepts for that type, so the second run edits the drive again.
\<close>

lemma client_without_start_connected_changes_twice:
  "outcome (main faithful_env client_args (Some floppy_vm)) =
     Some (Inr \<lparr>changed = Some True, failed = Some False, msg = None,
                instance_facts = Some ()\<rparr>)
 \<and> vm_after_run (main faithful_env client_args (Some floppy_vm)) floppy_vm =
     \<lparr>template = False, powerState = poweredOff,
      devices = [VirtualSIOController 400 0,
                 VirtualFloppy \<lparr>key = 8000, controllerKey = 400,
                   backing = RemoteDeviceBackingInfo,
                   connectable = \<lparr>allowGuestControl = True, startConnected = False,
                                  connected = False\<rparr>\<rparr>]\<rparr>
 \<and> outcome (main faithful_env client_args
      (Some (vm_after_run (main faithful_env client_args (Some floppy_vm)) floppy_vm))) =
     Some (Inr \<lparr>changed = Some True, failed = Some False, msg = None,
                instance_facts = Some ()\<rparr>)"
proof -
  let ?m1 = "\<lparr>template = False, powerState = poweredOff,
      devices = [VirtualSIOController 400 0,
                 VirtualFloppy \<lparr>key = 8000, controllerKey = 400,
                   backing = RemoteDeviceBackingInfo,
                   connectable = \<lparr>allowGuestControl = True, startConnected = False,
                                  connected = False\<rparr>\<rparr>]\<rparr>"
  have a: "main faithful_env client_args (Some floppy_vm) =
     \<lparr>outcome = Some (Inr \<lparr>changed = Some True, failed = Some False, msg = None,
                instance_facts = Some ()\<rparr>),
      helper_after = \<lparr>change_detected = True, deviceChange =
        [\<lparr>operation = edit, device = VirtualFloppy \<lparr>key = 8000, controllerKey = 400,
                   backing = RemoteDeviceBackingInfo,
                   connectable = \<lparr>allowGuestControl = True, startConnected = False,
                                  connected = False\<rparr>\<rparr>\<rparr>]\<rparr>,
      submitted = [[\<lparr>operation = edit, device = VirtualFloppy \<lparr>key = 8000, controllerKey = 400,
                   backing = RemoteDeviceBackingInfo,
                   connectable = \<lparr>allowGuestControl = True, startConnected = False,
                                  connected = False\<rparr>\<rparr>\<rparr>]]\<rparr>"
    by (simp add: main_def module_params_def client_args_def floppy_vm_def image_floppy_def
      apply_floppy_op_def floppy_pass_def configure_floppy_def is_template_def
      get_vm_floppy_device_def is_equal_floppy_def updated_floppy_def is_powered_on_def
      ConnectInfo_def append_change_def new_helper_def faithful_env_def wait_done_task
      done_task_def Let_def)
  have b: "vm_after_run (main faithful_env client_args (Some floppy_vm)) floppy_vm = ?m1"
    unfolding a
    by (simp add: vm_after_run_def reconfig_vm_def apply_change_def floppy_vm_def image_floppy_def)
  have c: "outcome (main faithful_env client_args (Some ?m1)) =
     Some (Inr \<lparr>changed = Some True, failed = Some False, msg = None,
                instance_facts = Some ()\<rparr>)"
    by (simp add: main_def module_params_def client_args_def
      apply_floppy_op_def floppy_pass_def configure_floppy_def is_template_def
      get_vm_floppy_device_def is_equal_floppy_def updated_floppy_def is_powered_on_def
      append_change_def new_helper_def faithful_env_def wait_done_task
      done_task_def Let_def)
  show ?thesis using a b c by simp
qed

text \<open>
  C8 as it is stated fails for a restriction raised at submit time: the module leaves
  through \<open>fail_json\<close> with the message alone, so the result it reports has \<open>failed\<close>
  true and no \<open>changed\<close> flag, although one change-set was sent.
\<close>

theorem restricted_version_has_no_changed_flag:
  "outcome (main (restricted_env ''licence'') flp_args (Some bare_vm)) =
     Some (Inl (Fail_json
        \<lparr>changed = None, failed = Some True,
         msg = Some ''Failed to reconfigure virtual machine due to product versioning restrictions: licence'',
         instance_facts = None\<rparr>))
 \<and> length (submitted (main (restricted_env ''licence'') flp_args (Some bare_vm))) = 1"
  by (simp add: main_def module_params_def flp_args_def bare_vm_def
      apply_floppy_op_def floppy_pass_def configure_floppy_def is_template_def
      get_vm_floppy_device_def get_vm_sio_device_def append_change_def new_helper_def
      created_floppy_def create_floppy_def ImageBackingInfo_init_def
      restricted_env_def fail_json_def empty_result_def Let_def)

text \<open>
  C8, as amended. For a run whose pass detected a change: when the endpoint raises a
  version restriction at submit time, \<open>main\<close> fails with \<open>failed\<close> true, no
  \<open>changed\<close> flag, and a message that ends with the endpoint's message; when the task
  the endpoint returned ends in the error state, \<open>main\<close> fails with \<open>changed\<close> true,
  \<open>failed\<close> true and the message of the task as it is.
\<close>

theorem rejection_is_reported:
  assumes "(floppy_pass (module_params a) (Some m) new_helper :: ('f abort \<times> helper) + helper) = Inr h'"
    and "change_detected h'"
  shows "(ReconfigVM_Task e m (deviceChange h') = Raise_RestrictedVersion s \<longrightarrow>
           outcome (main (e :: 'f env) a (Some m)) =
             Some (Inl (Fail_json
               \<lparr>changed = None, failed = Some True,
                msg = Some (''Failed to reconfigure virtual machine due to product versioning restrictions: '' @ s),
                instance_facts = None\<rparr>)))
       \<and> (ReconfigVM_Task e m (deviceChange h') = Task t m' \<and> wait_for_task t 0 = Some n
            \<and> info_state (t n) = error \<longrightarrow>
           outcome (main e a (Some m)) =
             Some (Inl (Fail_json
               \<lparr>changed = Some True, failed = Some True, msg = Some (error_msg (t n)),
                instance_facts = None\<rparr>)))"
  using assms
  by (simp add: main_def apply_floppy_op_def fail_json_def empty_result_def Let_def)

theorem rejection_is_reported_witness:
  "outcome (main (restricted_env ''licence'') flp_args (Some bare_vm)) =
     Some (Inl (Fail_json
        \<lparr>changed = None, failed = Some True,
         msg = Some (''Failed to reconfigure virtual machine due to product versioning restrictions: '' @ ''licence''),
         instance_facts = None\<rparr>))
 \<and> outcome (main (failing_env ''disk is locked'') flp_args (Some bare_vm)) =
     Some (Inl (Fail_json
        \<lparr>changed = Some True, failed = Some True, msg = Some ''disk is locked'',
         instance_facts = None\<rparr>))"
proof -
  let ?h = "\<lparr>change_detected = True,
             deviceChange =
               [\<lparr>operation = add, device = VirtualSIOController 0 0\<rparr>,
                \<lparr>operation = add,
                 device = VirtualFloppy
                   \<lparr>key = - 1, controllerKey = 0,
                    backing = ImageBackingInfo ''[datastore1] base.flp'',
                    connectable = \<lparr>allowGuestControl = True, startConnected = True,
                                   connected = False\<rparr>\<rparr>\<rparr>]\<rparr>"
  have p: "(floppy_pass (module_params flp_args) (Some bare_vm) new_helper
              :: (unit abort \<times> helper) + helper) = Inr ?h"
    by (simp add: floppy_pass_def module_params_def flp_args_def configure_floppy_def
        is_template_def get_vm_floppy_device_def get_vm_sio_device_def bare_vm_def
        append_change_def new_helper_def created_floppy_def create_floppy_def
        create_sio_controller_def is_powered_on_def ImageBackingInfo_init_def ConnectInfo_def
        Let_def)
  have c: "change_detected ?h" by simp
  have r: "ReconfigVM_Task (restricted_env ''licence'') bare_vm (deviceChange ?h)
             = Raise_RestrictedVersion ''licence''"
    by (simp add: restricted_env_def)
  have f: "ReconfigVM_Task (failing_env ''disk is locked'') bare_vm (deviceChange ?h)
             = Task (failing_task ''disk is locked'') bare_vm
         \<and> wait_for_task (failing_task ''disk is locked'') 0 = Some 2
         \<and> info_state (failing_task ''disk is locked'' 2) = error"
    by (simp add: failing_env_def wait_failing_task failing_task_def)
  have e: "error_msg (failing_task ''disk is locked'' 2) = ''disk is locked''"
    by (simp add: failing_task_def)
  show ?thesis
    using r f e
      rejection_is_reported [OF p c, of "restricted_env ''licence''" "''licence''"
        "failing_task ''disk is locked''" bare_vm 2]
      rejection_is_reported [OF p c, of "failing_env ''disk is locked''" "''licence''"
        "failing_task ''disk is locked''" bare_vm 2]
    by simp
qed

end
